theory Spec2Isabelle
  imports Complex_Main "HOL-Library.Multiset" "HOL-Library.AList" "HOL-Library.Word"
begin

unbundle bit_operations_syntax

section \<open>Shared data: errors, prediction items\<close>

text \<open>
  The exceptions the modelled functions can raise. Every raise of the source is a value
  \<open>Inl e\<close> of the model.
\<close>

datatype py_error =
    KeyError
  | ValidationError
  | IndexError
  | ImportError
  | FileNotFoundError
  | TypeError
  | OSError
  | OtherError string

text \<open>
  \<open>schemas.PredictionItem\<close>: a class name and a confidence. Confidences are Python floats;
  the validated ones lie in \<open>[0, 1]\<close>, where the order of floats is the order of the reals
  they denote, so a confidence is a \<open>real\<close>. The constructor validates
  \<open>ge=0.0, le=1.0\<close> and raises otherwise (a NaN fails both comparisons and is rejected
  the same way).
\<close>

record prediction_item =
  class_name :: string
  confidence :: real

definition PredictionItem :: "string \<Rightarrow> real \<Rightarrow> py_error + prediction_item" where
  "PredictionItem n c =
     (if 0 \<le> c \<and> c \<le> 1 then Inr \<lparr>class_name = n, confidence = c\<rparr> else Inl ValidationError)"

section \<open>inference.py: the detector's output, fonts and drawing\<close>

text \<open>
  One row of \<open>result.boxes\<close>: the corner coordinates \<open>xyxy\<close>, the class id \<open>cls\<close> (a float
  that \<open>int()\<close> truncates) and the confidence \<open>conf\<close>. \<open>result.names\<close> maps class ids to
  names; \<open>result.boxes\<close> may be \<open>None\<close>.
\<close>

record detection =
  xyxy :: "real \<times> real \<times> real \<times> real"
  cls :: real
  conf :: real

record yolo_result =
  boxes :: "detection list option"
  names :: "int \<rightharpoonup> string"

record image =
  width :: nat
  height :: nat
  pixels :: "8 word list"

type_synonym rgb = "nat \<times> nat \<times> nat"

datatype font = TrueType string nat | DefaultFont

text \<open>What \<open>draw.textbbox\<close> does: a box, an \<open>AttributeError\<close> (old PIL), or another exception.\<close>

datatype text_measure = BBox real real real real | NoTextbbox | MeasureRaises

text \<open>
  The two kinds of call made on the \<open>ImageDraw\<close> object. The rectangles are taken to be
  drawn whatever their corners are; \<open>draw.text\<close> can raise, see \<open>draw_text_raises\<close> below.
\<close>

datatype draw_op =
    Rectangle "real \<times> real" "real \<times> real" "rgb option" "rgb option" nat
  | DrawText "real \<times> real" string rgb "font option"

text \<open>
  The host and the libraries the pipeline calls and this repository does not contain:
  the detector, the file system's fonts, PIL's text measurement and PIL's PNG writer.
  \<open>truetype_loads p\<close> is false when \<open>ImageFont.truetype(p, 16)\<close> raises;
  \<open>load_default_raises\<close> is the exception of \<open>ImageFont.load_default()\<close>, or \<open>None\<close> when
  it returns the built-in font; a \<open>None\<close> of \<open>textsize\<close> stands for that call raising.
\<close>

record env =
  model :: "image \<Rightarrow> py_error + yolo_result"
  path_exists :: "string \<Rightarrow> bool"
  truetype_loads :: "string \<Rightarrow> bool"
  load_default_raises :: "py_error option"
  textbbox :: "font \<Rightarrow> string \<Rightarrow> text_measure"
  textsize :: "font \<Rightarrow> string \<Rightarrow> (real \<times> real) option"
  png_save :: "image \<Rightarrow> draw_op list \<Rightarrow> 8 word list"

subsection \<open>Font resolution (lines 135-155)\<close>

definition font_paths :: "string list" where
  "font_paths =
     [''/System/Library/Fonts/Helvetica.ttc'',
      ''/usr/share/fonts/truetype/dejavu/DejaVuSans.ttf'',
      ''C:/Windows/Fonts/arial.ttf'']"

text \<open>The \<open>for font_path in font_paths\<close> loop: the first path that exists and loads wins.\<close>

fun probe_fonts :: "env \<Rightarrow> string list \<Rightarrow> font option" where
  "probe_fonts e [] = None"
| "probe_fonts e (p # ps) =
     (if path_exists e p
      then (if truetype_loads e p then Some (TrueType p 16) else probe_fonts e ps)
      else probe_fonts e ps)"

definition load_font :: "env \<Rightarrow> font option" where
  "load_font e =
     (case probe_fonts e font_paths of
        Some f \<Rightarrow> Some f
      | None \<Rightarrow> (case load_default_raises e of None \<Rightarrow> Some DefaultFont | Some err \<Rightarrow> None))"

subsection \<open>Label text and its size (lines 187-208)\<close>

definition digit_char :: "nat \<Rightarrow> char" where
  "digit_char d = ''0123456789'' ! (d mod 10)"

fun string_of_nat :: "nat \<Rightarrow> string" where
  "string_of_nat n =
     (if n < 10 then [digit_char n] else string_of_nat (n div 10) @ [digit_char (n mod 10)])"

declare string_of_nat.simps [simp del]

text \<open>Rounding to the nearest integer, ties to even, as Python's float formatting does.\<close>

definition round_half_even :: "real \<Rightarrow> int" where
  "round_half_even x =
     (let f = \<lfloor>x\<rfloor>; d = x - of_int f
      in if d < 1 / 2 then f else if 1 / 2 < d then f + 1 else if even f then f else f + 1)"

text \<open>\<open>f"{x:.2f}"\<close>: sign, integer part, point, two digits.\<close>

definition format_2f :: "real \<Rightarrow> string" where
  "format_2f x =
     (let n = nat (round_half_even (\<bar>x\<bar> * 100))
      in (if x < 0 then ''-'' else '''') @ string_of_nat (n div 100) @ ''.''
         @ [digit_char (n mod 100 div 10), digit_char (n mod 10)])"

definition label_of :: "string \<Rightarrow> real \<Rightarrow> string" where
  "label_of cname c = cname @ '': '' @ format_2f c"

text \<open>
  The \<open>try\<close> block that computes \<open>text_width, text_height\<close>: measured with the font when
  there is one, estimated otherwise and whenever measuring raises.
\<close>

definition text_size :: "env \<Rightarrow> font option \<Rightarrow> string \<Rightarrow> real \<times> real" where
  "text_size e fnt label =
     (case fnt of
        None \<Rightarrow> (real (length label * 6), 12)
      | Some f \<Rightarrow>
          (case textbbox e f label of
             BBox l t r b \<Rightarrow> (r - l, b - t)
           | NoTextbbox \<Rightarrow>
               (case textsize e f label of
                  Some wh \<Rightarrow> wh
                | None \<Rightarrow> (real (length label * 6), 12))
           | MeasureRaises \<Rightarrow> (real (length label * 6), 12)))"

subsection \<open>The detection loop (lines 157-229)\<close>

definition colors :: "rgb list" where
  "colors =
     [(255, 0, 0), (0, 255, 0), (0, 0, 255), (255, 255, 0),
      (255, 0, 255), (0, 255, 255), (255, 128, 0), (128, 0, 255)]"

text \<open>\<open>int(x)\<close> on a float truncates towards zero.\<close>

definition py_int :: "real \<Rightarrow> int" where
  "py_int x = (if 0 \<le> x then \<lfloor>x\<rfloor> else \<lceil>x\<rceil>)"

definition label_y_of :: "real \<Rightarrow> real \<Rightarrow> real" where
  "label_y_of y1 text_height = max 0 (y1 - text_height - 5)"

text \<open>The three drawing calls of one iteration: the box, the label background, the text.\<close>

definition draw_detection :: "env \<Rightarrow> font option \<Rightarrow> string \<Rightarrow> detection \<Rightarrow> draw_op list" where
  "draw_detection e fnt cname d =
     (case xyxy d of (x1, y1, x2, y2) \<Rightarrow>
        let color = colors ! nat (py_int (cls d) mod int (length colors));
            label = label_of cname (conf d);
            sz = text_size e fnt label;
            label_y = label_y_of y1 (snd sz)
        in [Rectangle (x1, y1) (x2, y2) None (Some color) 3,
            Rectangle (x1, label_y) (x1 + fst sz + 10, label_y + snd sz + 5) (Some color) None 0,
            DrawText (x1 + 5, label_y + 2) label (255, 255, 255) fnt])"

text \<open>
  Lines 218-221: with a font the text is drawn with it. Without one \<open>draw.text\<close> is
  called with no font, and PIL then loads its default font itself
  (\<open>ImageDraw.getfont\<close> calls \<open>ImageFont.load_default()\<close>): the call whose exception left
  \<open>font = None\<close> at line 155. Here it stands outside every \<open>try\<close>, so its exception leaves
  \<open>predict\<close>.
\<close>

definition draw_text_raises :: "env \<Rightarrow> font option \<Rightarrow> py_error option" where
  "draw_text_raises e fnt = (case fnt of Some f \<Rightarrow> None | None \<Rightarrow> load_default_raises e)"

text \<open>
  The \<open>for\<close> loop over the rows: the class name is looked up first (a missing id raises
  \<open>KeyError\<close>), then the row is drawn (the text may raise), then the item is built (a
  confidence outside \<open>[0, 1]\<close> raises). The first exception ends the loop.
\<close>

fun detect_loop ::
  "env \<Rightarrow> font option \<Rightarrow> (int \<rightharpoonup> string) \<Rightarrow> detection list
     \<Rightarrow> py_error + (draw_op list \<times> prediction_item list)" where
  "detect_loop e fnt nm [] = Inr ([], [])"
| "detect_loop e fnt nm (d # ds) =
     (case nm (py_int (cls d)) of
        None \<Rightarrow> Inl KeyError
      | Some cname \<Rightarrow>
          (case draw_text_raises e fnt of
             Some err \<Rightarrow> Inl err
           | None \<Rightarrow>
               (case PredictionItem cname (conf d) of
                  Inl err \<Rightarrow> Inl err
                | Inr item \<Rightarrow>
                    (case detect_loop e fnt nm ds of
                       Inl err \<Rightarrow> Inl err
                     | Inr (ops, items) \<Rightarrow>
                         Inr (draw_detection e fnt cname d @ ops, item # items)))))"

subsection \<open>Sorting and the primary prediction (lines 231-245)\<close>

text \<open>
  \<open>list.sort(key=..., reverse=True)\<close>: CPython reverses the list, sorts it stably in
  ascending order and reverses it again, which keeps equal keys in their original order.
\<close>

definition sort_reverse :: "('a \<Rightarrow> real) \<Rightarrow> 'a list \<Rightarrow> 'a list" where
  "sort_reverse k xs = rev (sort_key k (rev xs))"

record prediction_result =
  disease :: string
  result_confidence :: real
  all_predictions :: "prediction_item list"
  annotated_image :: string

definition no_disease :: string where
  "no_disease = ''No Disease Detected''"

text \<open>
  The \<open>if boxes is not None and len(boxes) > 0\<close> statement: the drawing calls made and the
  three values it binds.
\<close>

definition reduce_boxes ::
  "env \<Rightarrow> font option \<Rightarrow> yolo_result
     \<Rightarrow> py_error + (draw_op list \<times> string \<times> real \<times> prediction_item list)" where
  "reduce_boxes e fnt res =
     (case boxes res of
        None \<Rightarrow> Inr ([], no_disease, 0, [\<lparr>class_name = no_disease, confidence = 0\<rparr>])
      | Some [] \<Rightarrow> Inr ([], no_disease, 0, [\<lparr>class_name = no_disease, confidence = 0\<rparr>])
      | Some (d # ds) \<Rightarrow>
          (case detect_loop e fnt (names res) (d # ds) of
             Inl err \<Rightarrow> Inl err
           | Inr (ops, items) \<Rightarrow>
               (case sort_reverse confidence items of
                  [] \<Rightarrow> Inl IndexError
                | primary # rest \<Rightarrow>
                    Inr (ops, class_name primary, confidence primary, primary # rest))))"

subsection \<open>Encoding the annotated image (lines 247-251)\<close>

definition b64_alphabet :: string where
  "b64_alphabet = ''ABCDEFGHIJKLMNOPQRSTUVWXYZabcdefghijklmnopqrstuvwxyz0123456789+/''"

definition b64_char :: "8 word \<Rightarrow> char" where
  "b64_char w = b64_alphabet ! unat (w AND 63)"

text \<open>\<open>base64.b64encode\<close>: three bytes give four characters, the tail is padded with \<open>=\<close>.\<close>

fun b64encode :: "8 word list \<Rightarrow> string" where
  "b64encode (a # b # c # rest) =
     [b64_char (drop_bit 2 a),
      b64_char (push_bit 4 (a AND 3) OR drop_bit 4 b),
      b64_char (push_bit 2 (b AND 15) OR drop_bit 6 c),
      b64_char c] @ b64encode rest"
| "b64encode [a, b] =
     [b64_char (drop_bit 2 a),
      b64_char (push_bit 4 (a AND 3) OR drop_bit 4 b),
      b64_char (push_bit 2 (b AND 15)),
      CHR ''='']"
| "b64encode [a] =
     [b64_char (drop_bit 2 a), b64_char (push_bit 4 (a AND 3)), CHR ''='', CHR ''='']"
| "b64encode [] = []"

definition data_uri_prefix :: string where
  "data_uri_prefix = ''data:image/png;base64,''"

subsection \<open>\<open>ModelInference.predict\<close>\<close>

definition predict :: "env \<Rightarrow> image \<Rightarrow> py_error + prediction_result" where
  "predict e img =
     (case model e img of
        Inl err \<Rightarrow> Inl err
      | Inr res \<Rightarrow>
          (case reduce_boxes e (load_font e) res of
             Inl err \<Rightarrow> Inl err
           | Inr (ops, d, c, preds) \<Rightarrow>
               Inr \<lparr>disease = d, result_confidence = c, all_predictions = preds,
                    annotated_image = data_uri_prefix @ b64encode (png_save e img ops)\<rparr>))"

section \<open>inference.py: the model singleton (lines 261-276)\<close>

text \<open>
  What one evaluation of \<open>ModelInference()\<close> finds: whether the detection library was
  imported, whether the weights file exists, and whether \<open>YOLO(path)\<close> raises.
\<close>

record world =
  ultralytics_available :: bool
  model_file_exists :: bool
  yolo_raises :: "py_error option"

text \<open>
  \<open>ModelInference.__init__\<close>. Every evaluation that returns creates a new object; the
  object is identified by the number \<open>k\<close> of the evaluation that created it.
\<close>

definition ModelInference :: "world \<Rightarrow> nat \<Rightarrow> py_error + nat" where
  "ModelInference w k =
     (if \<not> ultralytics_available w then Inl ImportError
      else if \<not> model_file_exists w then Inl FileNotFoundError
      else (case yolo_raises w of Some err \<Rightarrow> Inl err | None \<Rightarrow> Inr k))"

text \<open>
  The module's global \<open>_model_instance\<close>, with two counters that the code does not keep:
  how often \<open>ModelInference()\<close> was evaluated and how often it loaded the model.
\<close>

record module_state =
  model_instance :: "nat option"
  constructions :: nat
  loads :: nat

definition initial_state :: module_state where
  "initial_state = \<lparr>model_instance = None, constructions = 0, loads = 0\<rparr>"

text \<open>\<open>get_model\<close>, run without interruption. \<open>ws k\<close> is what the \<open>k\<close>-th evaluation finds.\<close>

definition get_model :: "(nat \<Rightarrow> world) \<Rightarrow> module_state \<Rightarrow> (py_error + nat) \<times> module_state" where
  "get_model ws s =
     (case model_instance s of
        Some m \<Rightarrow> (Inr m, s)
      | None \<Rightarrow>
          (let k = constructions s in
           case ModelInference (ws k) k of
             Inl err \<Rightarrow> (Inl err, s\<lparr>constructions := Suc k\<rparr>)
           | Inr m \<Rightarrow>
               (Inr m, s\<lparr>model_instance := Some m, constructions := Suc k, loads := Suc (loads s)\<rparr>)))"

text \<open>\<open>n\<close> calls, one after the other.\<close>

fun get_model_calls :: "(nat \<Rightarrow> world) \<Rightarrow> nat \<Rightarrow> module_state \<Rightarrow> module_state" where
  "get_model_calls ws 0 s = s"
| "get_model_calls ws (Suc n) s = get_model_calls ws n (snd (get_model ws s))"

section \<open>translator.py: Python objects in a store\<close>

text \<open>
  The translation layer copies and updates dictionaries that other code still holds, so
  its objects live in a store: a value is a string, a float, \<open>None\<close> or a reference, and
  the store maps addresses to dictionaries (insertion-ordered, as association lists),
  lists and \<open>PredictionItem\<close> instances. A new object gets the next free address.
\<close>

type_synonym addr = nat

datatype pyval = VNone | VStr string | VFloat real | VRef addr

datatype pyobj =
    PyDict "(string \<times> pyval) list"
  | PyList "pyval list"
  | PyModel string real

text \<open>
  The store, and the log of the calls made to the external translation service, each
  with its source language, target language and argument.
\<close>

record store =
  heap :: "pyobj list"
  calls :: "(string \<times> string \<times> pyval) list"

text \<open>
  What the translation layer calls and this repository does not contain.
  \<open>google_translate k src tgt v\<close> is the outcome of
  \<open>GoogleTranslator(source=src, target=tgt).translate(v)\<close> when \<open>k\<close> calls were made before
  it: \<open>Some t\<close> when it returns \<open>t\<close>, \<open>None\<close> when it raises. \<open>repr v\<close> is the text of
  \<open>str(v)\<close> for a float or a container \<open>v\<close>; the translation layer changes no object
  that existed before it was called, so this text does not change during a call.
\<close>

record services =
  google_translate :: "nat \<Rightarrow> string \<Rightarrow> string \<Rightarrow> pyval \<Rightarrow> string option"
  repr :: "pyval \<Rightarrow> string"

definition alloc :: "pyobj \<Rightarrow> store \<Rightarrow> addr \<times> store" where
  "alloc ob st = (length (heap st), st\<lparr>heap := heap st @ [ob]\<rparr>)"

text \<open>The object a value refers to; \<open>None\<close> for a value that is no reference.\<close>

definition deref :: "store \<Rightarrow> pyval \<Rightarrow> pyobj option" where
  "deref st v =
     (case v of
        VRef a \<Rightarrow> (if a < length (heap st) then Some (heap st ! a) else None)
      | _ \<Rightarrow> None)"

definition dict_at :: "store \<Rightarrow> addr \<Rightarrow> (string \<times> pyval) list" where
  "dict_at st a = (case deref st (VRef a) of Some (PyDict kvs) \<Rightarrow> kvs | _ \<Rightarrow> [])"

text \<open>\<open>d[k] = v\<close> on the dictionary at address \<open>a\<close>.\<close>

definition set_item :: "addr \<Rightarrow> string \<Rightarrow> pyval \<Rightarrow> store \<Rightarrow> store" where
  "set_item a k v st = st\<lparr>heap := (heap st)[a := PyDict (AList.update k v (dict_at st a))]\<rparr>"

text \<open>\<open>d.get(k, default)\<close>.\<close>

definition dict_get :: "(string \<times> pyval) list \<Rightarrow> string \<Rightarrow> pyval \<Rightarrow> pyval" where
  "dict_get kvs k dflt = (case map_of kvs k of Some v \<Rightarrow> v | None \<Rightarrow> dflt)"

definition py_str :: "services \<Rightarrow> pyval \<Rightarrow> string" where
  "py_str sv v = (case v of VStr s \<Rightarrow> s | VNone \<Rightarrow> ''None'' | _ \<Rightarrow> repr sv v)"

subsection \<open>\<open>TranslationService.translate_text\<close> (lines 51-72)\<close>

definition translate_text ::
  "services \<Rightarrow> store \<Rightarrow> pyval \<Rightarrow> string \<Rightarrow> string \<Rightarrow> pyval \<times> store" where
  "translate_text sv st txt target_lang source_lang =
     (if target_lang = ''en'' \<or> target_lang = source_lang then (txt, st)
      else
        (let st' = st\<lparr>calls := calls st @ [(source_lang, target_lang, txt)]\<rparr> in
         case google_translate sv (length (calls st)) source_lang target_lang txt of
           Some translated \<Rightarrow> (VStr translated, st')
         | None \<Rightarrow> (txt, st')))"

subsection \<open>\<open>TranslationService.translate_disease_names\<close> (lines 74-116)\<close>

text \<open>\<open>pred.dict()\<close> of a \<open>PredictionItem\<close>.\<close>

definition model_dict :: "string \<Rightarrow> real \<Rightarrow> (string \<times> pyval) list" where
  "model_dict n c = [(''class_name'', VStr n), (''confidence'', VFloat c)]"

definition other_dict :: "services \<Rightarrow> pyval \<Rightarrow> (string \<times> pyval) list" where
  "other_dict sv v = [(''class_name'', VStr (py_str sv v)), (''confidence'', VFloat 0)]"

text \<open>
  The loop of the \<open>target_lang == "en"\<close> branch: a model becomes a new dictionary, a
  dictionary is appended as it is (the same object), anything else becomes a new
  two-key dictionary.
\<close>

fun to_dicts :: "services \<Rightarrow> pyval list \<Rightarrow> store \<Rightarrow> pyval list \<times> store" where
  "to_dicts sv [] st = ([], st)"
| "to_dicts sv (pred # rest) st =
     (case (case deref st pred of
              Some (PyModel n c) \<Rightarrow> (case alloc (PyDict (model_dict n c)) st of
                                       (a, st1) \<Rightarrow> (VRef a, st1))
            | Some (PyDict kvs) \<Rightarrow> (pred, st)
            | _ \<Rightarrow> (case alloc (PyDict (other_dict sv pred)) st of
                      (a, st1) \<Rightarrow> (VRef a, st1)))
      of (v, st1) \<Rightarrow> (case to_dicts sv rest st1 of (out, st2) \<Rightarrow> (v # out, st2)))"

text \<open>The dictionary \<open>pred_dict\<close> the translating loop starts from.\<close>

definition pred_dict_of :: "services \<Rightarrow> store \<Rightarrow> pyval \<Rightarrow> (string \<times> pyval) list" where
  "pred_dict_of sv st pred =
     (case deref st pred of
        Some (PyModel n c) \<Rightarrow> model_dict n c
      | Some (PyDict kvs) \<Rightarrow> kvs
      | _ \<Rightarrow> other_dict sv pred)"

text \<open>
  The translating loop: each item gets a dictionary of its own (\<open>pred.dict()\<close>,
  \<open>pred.copy()\<close> or a literal), whose \<open>class_name\<close> is then replaced.
\<close>

fun translate_loop :: "services \<Rightarrow> string \<Rightarrow> pyval list \<Rightarrow> store \<Rightarrow> pyval list \<times> store" where
  "translate_loop sv tgt [] st = ([], st)"
| "translate_loop sv tgt (pred # rest) st =
     (case alloc (PyDict (pred_dict_of sv st pred)) st of (a, st1) \<Rightarrow>
      case translate_text sv st1 (dict_get (dict_at st1 a) ''class_name'' (VStr [])) tgt ''en'' of
        (translated_name, st2) \<Rightarrow>
      case translate_loop sv tgt rest (set_item a ''class_name'' translated_name st2) of
        (out, st3) \<Rightarrow> (VRef a # out, st3))"

definition translate_disease_names ::
  "services \<Rightarrow> store \<Rightarrow> pyval list \<Rightarrow> string \<Rightarrow> pyval \<times> store" where
  "translate_disease_names sv st predictions target_lang =
     (case (if target_lang = ''en'' then to_dicts sv predictions st
            else translate_loop sv target_lang predictions st) of
        (out, st1) \<Rightarrow> (case alloc (PyList out) st1 of (a, st2) \<Rightarrow> (VRef a, st2)))"

subsection \<open>\<open>TranslationService.translate_prediction_response\<close> (lines 118-150)\<close>

text \<open>
  The parameter is annotated \<open>Dict\<close> and \<open>all_predictions\<close> is passed on as a \<open>List\<close>: a
  response that is no dictionary, or whose \<open>all_predictions\<close> is no list, is outside
  these types and is reported as \<open>TypeError\<close>.
\<close>

definition translate_prediction_response ::
  "services \<Rightarrow> store \<Rightarrow> pyval \<Rightarrow> string \<Rightarrow> py_error + (pyval \<times> store)" where
  "translate_prediction_response sv st response target_lang =
     (if target_lang = ''en'' then Inr (response, st)
      else
        (case deref st response of
           Some (PyDict kvs) \<Rightarrow>
             (case alloc (PyDict kvs) st of (a, st1) \<Rightarrow>
              let st2 =
                (case map_of (dict_at st1 a) ''disease'' of
                   None \<Rightarrow> st1
                 | Some original_disease \<Rightarrow>
                     (case translate_text sv st1 original_disease target_lang ''en'' of
                        (translated_disease, st') \<Rightarrow> set_item a ''disease'' translated_disease st'))
              in
                (case map_of (dict_at st2 a) ''all_predictions'' of
                   None \<Rightarrow> Inr (VRef a, st2)
                 | Some predictions \<Rightarrow>
                     (case deref st2 predictions of
                        Some (PyList xs) \<Rightarrow>
                          (case translate_disease_names sv st2 xs target_lang of
                             (translated_predictions, st3) \<Rightarrow>
                               Inr (VRef a, set_item a ''all_predictions'' translated_predictions st3))
                      | _ \<Rightarrow> Inl TypeError)))
         | _ \<Rightarrow> Inl TypeError))"

subsection \<open>The dictionary \<open>predict\<close> returns, as objects (lines 253-258)\<close>

fun alloc_items :: "prediction_item list \<Rightarrow> store \<Rightarrow> pyval list \<times> store" where
  "alloc_items [] st = ([], st)"
| "alloc_items (p # ps) st =
     (case alloc (PyModel (class_name p) (confidence p)) st of (a, st1) \<Rightarrow>
      case alloc_items ps st1 of (refs, st2) \<Rightarrow> (VRef a # refs, st2))"

definition result_dict :: "prediction_result \<Rightarrow> store \<Rightarrow> pyval \<times> store" where
  "result_dict r st =
     (case alloc_items (all_predictions r) st of (refs, st1) \<Rightarrow>
      case alloc (PyList refs) st1 of (l, st2) \<Rightarrow>
      case alloc (PyDict [(''disease'', VStr (disease r)),
                          (''confidence'', VFloat (result_confidence r)),
                          (''all_predictions'', VRef l),
                          (''annotated_image'', VStr (annotated_image r))]) st2 of
        (a, st3) \<Rightarrow> (VRef a, st3))"

text \<open>Reading a response back: a key of the response, and a key of one of its items.\<close>

definition response_field :: "store \<Rightarrow> pyval \<Rightarrow> string \<Rightarrow> pyval option" where
  "response_field st response k =
     (case deref st response of Some (PyDict kvs) \<Rightarrow> map_of kvs k | _ \<Rightarrow> None)"

definition response_items :: "store \<Rightarrow> pyval \<Rightarrow> pyval list" where
  "response_items st response =
     (case response_field st response ''all_predictions'' of
        Some v \<Rightarrow> (case deref st v of Some (PyList xs) \<Rightarrow> xs | _ \<Rightarrow> [])
      | None \<Rightarrow> [])"

text \<open>
  An attribute or key of an item, whichever kind of object the item is: \<open>item.k\<close> for a
  model, \<open>item[k]\<close> for a dictionary.
\<close>

definition item_field :: "store \<Rightarrow> pyval \<Rightarrow> string \<Rightarrow> pyval option" where
  "item_field st item k =
     (case deref st item of
        Some (PyDict kvs) \<Rightarrow> map_of kvs k
      | Some (PyModel n c) \<Rightarrow> map_of (model_dict n c) k
      | _ \<Rightarrow> None)"

section \<open>Vocabulary of the properties, and example inputs\<close>

text \<open>
  A row the loop accepts: its class id has a name and its confidence passes the
  validation of \<open>PredictionItem\<close>.
\<close>

definition row_ok :: "(int \<rightharpoonup> string) \<Rightarrow> detection \<Rightarrow> bool" where
  "row_ok nm d \<longleftrightarrow> nm (py_int (cls d)) \<noteq> None \<and> 0 \<le> conf d \<and> conf d \<le> 1"






text \<open>
  Example inputs. A white image of one pixel with the bytes of its PNG file; a white
  image of 100 by 100 pixels; three class names; three rows of which two have the same
  confidence. The example host has none of the three font files and a PIL whose built-in
  font is the bitmap font with cells of 6 by 11 pixels. Its PNG writer is given for the
  one image the examples encode, the unannotated one-pixel image; for other images no
  bytes are given.
\<close>

definition pixel_image :: image where
  "pixel_image = \<lparr>width = 1, height = 1, pixels = [255, 255, 255]\<rparr>"

definition pixel_png :: "8 word list" where
  "pixel_png =
     [137, 80, 78, 71, 13, 10, 26, 10, 0, 0, 0, 13, 73, 72, 68, 82, 0, 0, 0, 1, 0, 0, 0, 1,
      8, 2, 0, 0, 0, 144, 119, 83, 222, 0, 0, 0, 12, 73, 68, 65, 84, 120, 156, 99, 248, 255,
      255, 63, 0, 5, 254, 2, 254, 13, 239, 70, 184, 0, 0, 0, 0, 73, 69, 78, 68, 174, 66, 96,
      130]"

definition ex_image :: image where
  "ex_image = \<lparr>width = 100, height = 100, pixels = replicate 30000 255\<rparr>"

definition ex_names :: "int \<rightharpoonup> string" where
  "ex_names = [0 \<mapsto> ''Leaf Blight'', 1 \<mapsto> ''Healthy'', 2 \<mapsto> ''Rust'']"

definition ex_rows :: "detection list" where
  "ex_rows =
     [\<lparr>xyxy = (10, 20, 50, 60), cls = 1, conf = 0.40\<rparr>,
      \<lparr>xyxy = (90, 50, 99, 99), cls = 0, conf = 0.91\<rparr>,
      \<lparr>xyxy = (0, 2, 30, 40), cls = 2, conf = 0.40\<rparr>]"

definition ex_png_save :: "image \<Rightarrow> draw_op list \<Rightarrow> 8 word list" where
  "ex_png_save img ops = (if img = pixel_image \<and> ops = [] then pixel_png else [])"

definition default_font_host :: "detection list option \<Rightarrow> env" where
  "default_font_host bs =
     \<lparr>model = (\<lambda>img. Inr \<lparr>boxes = bs, names = ex_names\<rparr>),
      path_exists = (\<lambda>p. False),
      truetype_loads = (\<lambda>p. False),
      load_default_raises = None,
      textbbox = (\<lambda>f s. BBox 0 0 (real (6 * length s)) 11),
      textsize = (\<lambda>f s. Some (real (6 * length s), 11)),
      png_save = ex_png_save\<rparr>"

text \<open>The same host with a PIL that cannot load its built-in font either.\<close>

definition fontless_host :: "detection list option \<Rightarrow> env" where
  "fontless_host bs = (default_font_host bs)\<lparr>load_default_raises := Some OSError\<rparr>"

subsection \<open>Vocabulary and examples for the model singleton\<close>

text \<open>
  The state that sequential calls keep: nothing loaded while the global is unset, one
  load once it is set.
\<close>

definition loaded_once :: "module_state \<Rightarrow> bool" where
  "loaded_once s \<longleftrightarrow> (case model_instance s of None \<Rightarrow> loads s = 0 | Some m \<Rightarrow> loads s = 1)"

text \<open>An example: the weights file appears only after the first attempt.\<close>

definition late_worlds :: "nat \<Rightarrow> world" where
  "late_worlds k = \<lparr>ultralytics_available = True, model_file_exists = (0 < k), yolo_raises = None\<rparr>"

section \<open>Properties of the prediction pipeline\<close>

subsection \<open>The sort\<close>

lemma sort_reverse_sorted: "sorted_wrt (\<lambda>p q. k q \<le> k p) (sort_reverse k xs)"
proof -
  have "sorted (map k (sort_key k (rev xs)))" by simp
  then have "sorted_wrt (\<lambda>p q. k p \<le> k q) (sort_key k (rev xs))"
    by (simp add: sorted_map)
  then show ?thesis
    unfolding sort_reverse_def by (simp add: sorted_wrt_rev)
qed

lemma sort_reverse_mset: "mset (sort_reverse k xs) = mset xs"
  by (simp add: sort_reverse_def)

lemma sort_reverse_stable:
  "filter (\<lambda>p. k p = v) (sort_reverse k xs) = filter (\<lambda>p. k p = v) xs"
  by (simp add: sort_reverse_def rev_filter [symmetric] sort_key_stable)

lemma sort_reverse_Nil_iff: "sort_reverse k xs = [] \<longleftrightarrow> xs = []"
  by (metis mset_zero_iff sort_reverse_mset)

subsection \<open>The loop\<close>

lemma detect_loop_items:
  "detect_loop e fnt nm ds = Inr (ops, items) \<Longrightarrow>
     map confidence items = map conf ds \<and>
     map (\<lambda>p. Some (class_name p)) items = map (\<lambda>d. nm (py_int (cls d))) ds"
proof (induction ds arbitrary: ops items)
  case Nil
  then show ?case by simp
next
  case (Cons d ds)
  then show ?case
    by (auto simp: PredictionItem_def split: option.splits sum.splits if_splits prod.splits)
qed

text \<open>
  The loop returns exactly when every row is accepted and, if there is a row at all,
  drawing its text does not raise.
\<close>

lemma detect_loop_returns_iff:
  "(\<exists>r. detect_loop e fnt nm ds = Inr r)
     \<longleftrightarrow> list_all (row_ok nm) ds \<and> (ds = [] \<or> draw_text_raises e fnt = None)"
proof (induction ds)
  case Nil
  then show ?case by simp
next
  case (Cons d ds)
  then show ?case
    by (cases "draw_text_raises e fnt")
       (auto simp: PredictionItem_def row_ok_def
          split: option.splits sum.splits if_splits prod.splits)
qed

lemma draw_text_load_font: "load_font e \<noteq> None \<Longrightarrow> draw_text_raises e (load_font e) = None"
  by (auto simp: draw_text_raises_def split: option.splits)

subsection \<open>C2: the reduction sorts stably and takes the first element\<close>

text \<open>
  Claim C2. Let the detector return a non-empty sequence \<open>ds\<close> of rows the loop accepts,
  on a host where a font was resolved (without one the drawing of the first row
  raises). Then \<open>predict\<close> returns a result \<open>r\<close>, and with \<open>items\<close> the prediction items of
  the rows in detection order (same confidences, same class names): \<open>all_predictions r\<close>
  is sorted by confidence in descending order, it is a permutation of \<open>items\<close>, the items
  of any one confidence stand in it in their original order, and \<open>disease\<close> and the
  confidence of the result are those of its first element.
\<close>

theorem reduction_sorted_stable:
  assumes m: "model e img = Inr res" and b: "boxes res = Some ds" and ne: "ds \<noteq> []"
    and ok: "list_all (row_ok (names res)) ds"
    and font: "load_font e \<noteq> None"
  shows "\<exists>r items. predict e img = Inr r
      \<and> map confidence items = map conf ds
      \<and> map (\<lambda>p. Some (class_name p)) items = map (\<lambda>d. names res (py_int (cls d))) ds
      \<and> sorted_wrt (\<lambda>p q. confidence q \<le> confidence p) (all_predictions r)
      \<and> mset (all_predictions r) = mset items
      \<and> (\<forall>v. filter (\<lambda>p. confidence p = v) (all_predictions r)
               = filter (\<lambda>p. confidence p = v) items)
      \<and> all_predictions r \<noteq> []
      \<and> disease r = class_name (hd (all_predictions r))
      \<and> result_confidence r = confidence (hd (all_predictions r))"
proof -
  from ok font obtain ops items
    where dl: "detect_loop e (load_font e) (names res) ds = Inr (ops, items)"
    using detect_loop_returns_iff [of e "load_font e" "names res" ds] draw_text_load_font [of e]
    by auto
  note it = detect_loop_items [OF dl]
  from it ne have "items \<noteq> []" by auto
  then have "sort_reverse confidence items \<noteq> []"
    by (simp add: sort_reverse_Nil_iff)
  then obtain p ps where s: "sort_reverse confidence items = p # ps"
    by (cases "sort_reverse confidence items") auto
  from ne obtain d ds' where dd: "ds = d # ds'" by (cases ds) auto
  have rb: "reduce_boxes e (load_font e) res = Inr (ops, class_name p, confidence p, p # ps)"
    using b dl s unfolding reduce_boxes_def dd by simp
  let ?r = "\<lparr>disease = class_name p, result_confidence = confidence p, all_predictions = p # ps,
              annotated_image = data_uri_prefix @ b64encode (png_save e img ops)\<rparr>"
  have pr: "predict e img = Inr ?r"
    using m rb by (simp add: predict_def)
  have srt: "sorted_wrt (\<lambda>p q. confidence q \<le> confidence p) (p # ps)"
    using sort_reverse_sorted [of confidence items] s by simp
  have ms: "mset (p # ps) = mset items"
    using sort_reverse_mset [of confidence items] s by simp
  have st: "\<forall>v. filter (\<lambda>q. confidence q = v) (p # ps) = filter (\<lambda>q. confidence q = v) items"
    using sort_reverse_stable [of confidence _ items] s by simp
  show ?thesis
    apply (rule exI [of _ ?r])
    apply (rule exI [of _ items])
    using pr it srt ms st by simp
qed

lemma default_font_host_font: "load_font (default_font_host bs) = Some DefaultFont"
  by (simp add: load_font_def default_font_host_def font_paths_def)

lemma fontless_host_font: "load_font (fontless_host bs) = None"
  by (simp add: load_font_def fontless_host_def default_font_host_def font_paths_def)

theorem reduction_sorted_stable_witness:
  "\<exists>r items. predict (default_font_host (Some ex_rows)) ex_image = Inr r
      \<and> map confidence items = map conf ex_rows
      \<and> map (\<lambda>p. Some (class_name p)) items = map (\<lambda>d. ex_names (py_int (cls d))) ex_rows
      \<and> sorted_wrt (\<lambda>p q. confidence q \<le> confidence p) (all_predictions r)
      \<and> mset (all_predictions r) = mset items
      \<and> (\<forall>v. filter (\<lambda>p. confidence p = v) (all_predictions r)
               = filter (\<lambda>p. confidence p = v) items)
      \<and> all_predictions r \<noteq> []
      \<and> disease r = class_name (hd (all_predictions r))
      \<and> result_confidence r = confidence (hd (all_predictions r))"
proof -
  have m: "model (default_font_host (Some ex_rows)) ex_image
             = Inr \<lparr>boxes = Some ex_rows, names = ex_names\<rparr>"
    by (simp add: default_font_host_def)
  have ne: "ex_rows \<noteq> []" by (simp add: ex_rows_def)
  have ok: "list_all (row_ok (names \<lparr>boxes = Some ex_rows, names = ex_names\<rparr>)) ex_rows"
    by (simp add: ex_rows_def row_ok_def ex_names_def py_int_def)
  have f: "load_font (default_font_host (Some ex_rows)) \<noteq> None"
    by (simp add: default_font_host_font)
  show ?thesis
    using reduction_sorted_stable [OF m _ ne ok f] by simp
qed

subsection \<open>C3: no detection gives the sentinel\<close>

text \<open>
  Claim C3. When the detector returns and reports no boxes (\<open>None\<close> or an empty
  sequence), \<open>predict\<close> returns, and its result has the disease
  \<open>"No Disease Detected"\<close>, the confidence 0.0 and exactly one prediction item, with that
  name and that confidence.
\<close>

theorem empty_detections_sentinel:
  assumes "model e img = Inr res" and "boxes res = None \<or> boxes res = Some []"
  shows "predict e img =
     Inr \<lparr>disease = ''No Disease Detected'', result_confidence = 0,
          all_predictions = [\<lparr>class_name = ''No Disease Detected'', confidence = 0\<rparr>],
          annotated_image = data_uri_prefix @ b64encode (png_save e img [])\<rparr>"
  using assms by (auto simp: predict_def reduce_boxes_def no_disease_def)

lemma pixel_png_base64:
  "b64encode pixel_png
     = ''iVBORw0KGgoAAAANSUhEUgAAAAEAAAABCAIAAACQd1PeAAAADElEQVR4nGP4//8/AAX+Av4N70a4AAAAAElFTkSuQmCC''"
  by (simp add: pixel_png_def b64_char_def b64_alphabet_def)

theorem empty_detections_sentinel_witness:
  "predict (default_font_host None) pixel_image =
     Inr \<lparr>disease = ''No Disease Detected'', result_confidence = 0,
          all_predictions = [\<lparr>class_name = ''No Disease Detected'', confidence = 0\<rparr>],
          annotated_image = data_uri_prefix @ b64encode pixel_png\<rparr>"
proof -
  have m: "model (default_font_host None) pixel_image = Inr \<lparr>boxes = None, names = ex_names\<rparr>"
    by (simp add: default_font_host_def)
  have b: "boxes \<lparr>boxes = None, names = ex_names\<rparr> = None
         \<or> boxes \<lparr>boxes = None, names = ex_names\<rparr> = Some []" by simp
  have "png_save (default_font_host None) pixel_image [] = pixel_png"
    by (simp add: default_font_host_def ex_png_save_def)
  then show ?thesis
    using empty_detections_sentinel [OF m b] by simp
qed

subsection \<open>C6: the encoding of the annotated image\<close>

lemma predict_pixel:
  "predict (default_font_host (Some [])) pixel_image =
     Inr \<lparr>disease = ''No Disease Detected'', result_confidence = 0,
          all_predictions = [\<lparr>class_name = ''No Disease Detected'', confidence = 0\<rparr>],
          annotated_image =
            ''data:image/png;base64,iVBORw0KGgoAAAANSUhEUgAAAAEAAAABCAIAAACQd1PeAAAADElEQVR4nGP4//8/AAX+Av4N70a4AAAAAElFTkSuQmCC''\<rparr>"
  by (simp add: predict_def default_font_host_def reduce_boxes_def no_disease_def
      ex_png_save_def data_uri_prefix_def pixel_png_base64)

text \<open>
  Claim C6 says that the pipeline hands back the bytes of the encoded image and leaves
  the embedding in a data URI to its caller. The code does otherwise: \<open>predict\<close> itself
  encodes the PNG bytes in base64 and puts \<open>data:image/png;base64,\<close> in front. For the
  one-pixel image without detections, the \<open>annotated_image\<close> it returns is the data URI of
  the PNG file, not the bytes of that file.
\<close>

theorem pipeline_embeds_data_uri_counterexample:
  "map_sum id annotated_image (predict (default_font_host (Some [])) pixel_image)
     = Inr ''data:image/png;base64,iVBORw0KGgoAAAANSUhEUgAAAAEAAAABCAIAAACQd1PeAAAADElEQVR4nGP4//8/AAX+Av4N70a4AAAAAElFTkSuQmCC''
   \<and> png_save (default_font_host (Some [])) pixel_image [] = pixel_png
   \<and> b64encode pixel_png
     = ''iVBORw0KGgoAAAANSUhEUgAAAAEAAAABCAIAAACQd1PeAAAADElEQVR4nGP4//8/AAX+Av4N70a4AAAAAElFTkSuQmCC''"
proof -
  have "png_save (default_font_host (Some [])) pixel_image [] = pixel_png"
    by (simp add: default_font_host_def ex_png_save_def)
  then show ?thesis
    by (simp add: predict_pixel pixel_png_base64)
qed

text \<open>
  Claim C6, amended. Whenever \<open>predict\<close> returns, its \<open>annotated_image\<close> is a string: the
  prefix \<open>data:image/png;base64,\<close> followed by the base64 text of the bytes that the PNG
  writer produced for the input image and the drawing calls of the detection loop.
\<close>

theorem annotated_image_data_uri:
  assumes "predict e img = Inr r"
  shows "\<exists>res ops d c preds.
           model e img = Inr res
         \<and> reduce_boxes e (load_font e) res = Inr (ops, d, c, preds)
         \<and> annotated_image r = ''data:image/png;base64,'' @ b64encode (png_save e img ops)"
  using assms
  by (auto simp: predict_def data_uri_prefix_def split: sum.splits)

theorem annotated_image_data_uri_witness:
  "\<exists>res ops d c preds.
       model (default_font_host (Some [])) pixel_image = Inr res
     \<and> reduce_boxes (default_font_host (Some [])) (load_font (default_font_host (Some []))) res
         = Inr (ops, d, c, preds)
     \<and> ''data:image/png;base64,iVBORw0KGgoAAAANSUhEUgAAAAEAAAABCAIAAACQd1PeAAAADElEQVR4nGP4//8/AAX+Av4N70a4AAAAAElFTkSuQmCC''
         = ''data:image/png;base64,'' @ b64encode (png_save (default_font_host (Some [])) pixel_image ops)"
  using annotated_image_data_uri [OF predict_pixel] by simp

subsection \<open>C7: the layout of the labels\<close>









text \<open>
  What the code does when no font at all can be loaded and there is a detection: the
  first \<open>draw.text\<close> raises the exception of \<open>ImageFont.load_default()\<close>, and \<open>predict\<close>
  with it.
\<close>

lemma predict_without_font_raises:
  assumes "model e img = Inr res" and "boxes res = Some (d # ds)"
    and "names res (py_int (cls d)) = Some cname" and "load_font e = None"
  shows "\<exists>err. load_default_raises e = Some err \<and> predict e img = Inl err"
proof -
  from assms(4) obtain err where err: "load_default_raises e = Some err"
    by (auto simp: load_font_def split: option.splits)
  then have "detect_loop e None (names res) (d # ds) = Inl err"
    using assms(3) by (simp add: draw_text_raises_def)
  then have "predict e img = Inl err"
    using assms by (simp add: predict_def reduce_boxes_def)
  with err show ?thesis by blast
qed

lemma fontless_host_raises: "predict (fontless_host (Some ex_rows)) ex_image = Inl OSError"
proof -
  have m: "model (fontless_host (Some ex_rows)) ex_image
             = Inr \<lparr>boxes = Some ex_rows, names = ex_names\<rparr>"
    by (simp add: fontless_host_def default_font_host_def)
  have b: "boxes \<lparr>boxes = Some ex_rows, names = ex_names\<rparr>
             = Some (\<lparr>xyxy = (10, 20, 50, 60), cls = 1, conf = 0.40\<rparr>
                     # [\<lparr>xyxy = (90, 50, 99, 99), cls = 0, conf = 0.91\<rparr>,
                        \<lparr>xyxy = (0, 2, 30, 40), cls = 2, conf = 0.40\<rparr>])"
    by (simp add: ex_rows_def)
  have n: "names \<lparr>boxes = Some ex_rows, names = ex_names\<rparr>
             (py_int (cls \<lparr>xyxy = (10, 20, 50, 60), cls = 1, conf = 0.40\<rparr>)) = Some ''Healthy''"
    by (simp add: ex_names_def py_int_def)
  show ?thesis
    using predict_without_font_raises [OF m b n fontless_host_font]
    by (simp add: fontless_host_def)
qed

section \<open>Properties of the model singleton\<close>

lemma get_model_cached_state:
  "model_instance s = Some m \<Longrightarrow> get_model ws s = (Inr m, s)"
  by (simp add: get_model_def)

lemma get_model_calls_cached:
  "model_instance s = Some m \<Longrightarrow> get_model_calls ws n s = s"
  by (induction n) (simp_all add: get_model_cached_state)

lemma get_model_Inr:
  "get_model ws s = (Inr m, s') \<Longrightarrow> model_instance s' = Some m"
  by (auto simp: get_model_def Let_def split: option.splits sum.splits)

lemma get_model_construction_fails:
  assumes "model_instance s = None"
    and "ModelInference (ws (constructions s)) (constructions s) = Inl err"
  shows "get_model ws s = (Inl err, s\<lparr>constructions := Suc (constructions s)\<rparr>)"
  using assms by (simp add: get_model_def)

lemma get_model_loaded_once: "loaded_once s \<Longrightarrow> loaded_once (snd (get_model ws s))"
  by (auto simp: loaded_once_def get_model_def Let_def split: option.splits sum.splits)

lemma get_model_calls_loaded_once: "loaded_once s \<Longrightarrow> loaded_once (get_model_calls ws n s)"
  by (induction n arbitrary: s) (simp_all add: get_model_loaded_once)

lemma loaded_once_le: "loaded_once s \<Longrightarrow> loads s \<le> 1"
  by (auto simp: loaded_once_def split: option.splits)

subsection \<open>C8: one load in sequential execution\<close>

text \<open>
  Claim C8. Calls of \<open>get_model\<close> that run one after the other load the model at most
  once. Once a call has returned an instance, the global holds it and every later call
  returns the same instance and leaves the state, with its counters, as it is. If the
  global is unset and the construction fails with an error, \<open>get_model\<close> raises that
  error, the global stays unset and nothing is loaded; the next call evaluates
  \<open>ModelInference()\<close> again, and returns and caches the instance or raises as that
  evaluation does.
\<close>

theorem get_model_loads_once:
  "loads (get_model_calls ws n initial_state) \<le> 1
   \<and> (get_model ws s = (Inr m, s') \<longrightarrow>
        model_instance s' = Some m
        \<and> (\<forall>k. get_model ws (get_model_calls ws k s') = (Inr m, s')))
   \<and> (model_instance s = None
        \<and> ModelInference (ws (constructions s)) (constructions s) = Inl err \<longrightarrow>
        get_model ws s = (Inl err, s\<lparr>constructions := Suc (constructions s)\<rparr>)
        \<and> model_instance (snd (get_model ws s)) = None
        \<and> loads (snd (get_model ws s)) = loads s
        \<and> get_model ws (snd (get_model ws s))
            = (case ModelInference (ws (Suc (constructions s))) (Suc (constructions s)) of
                 Inl err' \<Rightarrow> (Inl err', s\<lparr>constructions := Suc (Suc (constructions s))\<rparr>)
               | Inr m' \<Rightarrow> (Inr m', s\<lparr>model_instance := Some m',
                                       constructions := Suc (Suc (constructions s)),
                                       loads := Suc (loads s)\<rparr>)))"
proof -
  have "loaded_once initial_state" by (simp add: loaded_once_def initial_state_def)
  then have a: "loads (get_model_calls ws n initial_state) \<le> 1"
    by (intro loaded_once_le get_model_calls_loaded_once)
  have b: "model_instance s' = Some m \<and> (\<forall>k. get_model ws (get_model_calls ws k s') = (Inr m, s'))"
    if "get_model ws s = (Inr m, s')"
    using get_model_Inr [OF that] by (simp add: get_model_calls_cached get_model_cached_state)
  have c: "get_model ws s = (Inl err, s\<lparr>constructions := Suc (constructions s)\<rparr>)
        \<and> model_instance (snd (get_model ws s)) = None
        \<and> loads (snd (get_model ws s)) = loads s
        \<and> get_model ws (snd (get_model ws s))
            = (case ModelInference (ws (Suc (constructions s))) (Suc (constructions s)) of
                 Inl err' \<Rightarrow> (Inl err', s\<lparr>constructions := Suc (Suc (constructions s))\<rparr>)
               | Inr m' \<Rightarrow> (Inr m', s\<lparr>model_instance := Some m',
                                       constructions := Suc (Suc (constructions s)),
                                       loads := Suc (loads s)\<rparr>))"
    if "model_instance s = None"
      and "ModelInference (ws (constructions s)) (constructions s) = Inl err"
    using that
    by (simp add: get_model_construction_fails) (simp add: get_model_def split: sum.splits)
  from a b c show ?thesis by blast
qed

theorem get_model_loads_once_witness:
  "loads (get_model_calls late_worlds 5 initial_state) \<le> 1
   \<and> ModelInference (late_worlds 0) 0 = Inl FileNotFoundError
   \<and> get_model late_worlds initial_state
       = (Inl FileNotFoundError, \<lparr>model_instance = None, constructions = 1, loads = 0\<rparr>)
   \<and> get_model late_worlds \<lparr>model_instance = None, constructions = 1, loads = 0\<rparr>
       = (Inr 1, \<lparr>model_instance = Some 1, constructions = 2, loads = 1\<rparr>)
   \<and> (\<forall>k. get_model late_worlds
             (get_model_calls late_worlds k \<lparr>model_instance = Some 1, constructions = 2, loads = 1\<rparr>)
           = (Inr 1, \<lparr>model_instance = Some 1, constructions = 2, loads = 1\<rparr>))"
proof -
  have i: "model_instance initial_state = None
         \<and> ModelInference (late_worlds (constructions initial_state)) (constructions initial_state)
             = Inl FileNotFoundError"
    by (simp add: initial_state_def late_worlds_def ModelInference_def)
  have g: "get_model late_worlds \<lparr>model_instance = None, constructions = 1, loads = 0\<rparr>
       = (Inr 1, \<lparr>model_instance = Some 1, constructions = 2, loads = 1\<rparr>)"
    by (simp add: get_model_def late_worlds_def ModelInference_def)
  have n: "ModelInference (late_worlds (Suc 0)) (Suc 0) = Inr 1"
    by (simp add: late_worlds_def ModelInference_def)
  show ?thesis
    using get_model_loads_once [of late_worlds 5
        "\<lparr>model_instance = None, constructions = 1, loads = 0\<rparr>" 1
        "\<lparr>model_instance = Some 1, constructions = 2, loads = 1\<rparr>"]
      get_model_loads_once [of late_worlds 5 initial_state _ _ FileNotFoundError] i g n
    by (simp add: initial_state_def)
qed

end
